theory Spec2Isabelle
  imports Complex_Main
begin

section \<open>Energy data collector: a model of \<^verbatim>\<open>energy_monitor.py\<close>\<close>

text \<open>
  The script fetches a load document (XML), a carbon intensity (JSON) and a stub price,
  composes one time-series point per load point and writes the batch to InfluxDB.
  Conventions of the model:
  \<^item> a Python exception is a value of \<open>error\<close>; a call that may raise returns
    \<open>error + 'a\<close> with \<open>Inl\<close> for the exception;
  \<^item> what a function does to the outside world (log lines, HTTP requests, writes to the
    database) is the list of \<open>event\<close>s it returns beside its result, in order;
  \<^item> what the outside world answers (the clock, the HTTP responses, the database) is read
    from a \<open>world\<close> record;
  \<^item> a Python \<open>float\<close> is a real number: finite values only, rounding not modelled.
\<close>

subsection \<open>Exceptions\<close>

text \<open>
  The exceptions the modelled code can raise. All of them are subclasses of
  \<open>Exception\<close>, which is what the \<open>except Exception\<close> clauses catch.
  \<open>KeyboardInterrupt\<close> and \<open>SystemExit\<close>, which are not, come from signals and from
  \<open>sys.exit\<close>, not from this code.
\<close>

datatype error =
    RequestException      \<comment> \<open>\<open>requests.RequestException\<close> and its subclasses\<close>
  | ParseError            \<comment> \<open>\<open>xml.etree.ElementTree.ParseError\<close>\<close>
  | ValueError
  | TypeError
  | AttributeError
  | KeyError
  | OverflowError
  | InfluxDBError         \<comment> \<open>whatever the InfluxDB client raises (an \<open>Exception\<close>)\<close>

subsection \<open>\<open>datetime\<close>: UTC date and time, and whole-day arithmetic\<close>

text \<open>
  Every \<open>datetime\<close> the script computes itself starts from
  \<open>datetime.now(timezone.utc)\<close> and is changed only by \<open>replace\<close> and by subtracting a
  \<open>timedelta\<close> of whole days, so its \<open>tzinfo\<close> is always UTC and is left out of the record.
  The calendar functions follow the \<open>datetime\<close> module (\<open>_is_leap\<close>,
  \<open>_days_before_year\<close>, \<open>_days_before_month\<close>, \<open>_ymd2ord\<close>, \<open>_ord2ymd\<close>).
\<close>

record datetime =
  year :: int
  month :: int
  day :: int
  hour :: int
  minute :: int
  second :: int
  microsecond :: int

definition is_leap :: "int \<Rightarrow> bool" where
  "is_leap y = (y mod 4 = 0 \<and> (y mod 100 \<noteq> 0 \<or> y mod 400 = 0))"

definition DAYS_IN_MONTH :: "int list" where
  "DAYS_IN_MONTH = [-1, 31, 28, 31, 30, 31, 30, 31, 31, 30, 31, 30, 31]"

definition DAYS_BEFORE_MONTH :: "int list" where
  "DAYS_BEFORE_MONTH = [-1, 0, 31, 59, 90, 120, 151, 181, 212, 243, 273, 304, 334]"

definition MAXORDINAL :: int where
  "MAXORDINAL = 3652059"

definition days_before_year :: "int \<Rightarrow> int" where
  "days_before_year y = (let p = y - 1 in p * 365 + p div 4 - p div 100 + p div 400)"

definition days_before_month :: "int \<Rightarrow> int \<Rightarrow> int" where
  "days_before_month y m =
     DAYS_BEFORE_MONTH ! nat m + (if m > 2 \<and> is_leap y then 1 else 0)"

definition ymd2ord :: "int \<Rightarrow> int \<Rightarrow> int \<Rightarrow> int" where
  "ymd2ord y m d = days_before_year y + days_before_month y m + d"

definition toordinal :: "datetime \<Rightarrow> int" where
  "toordinal dt = ymd2ord (year dt) (month dt) (day dt)"

definition ord2ymd :: "int \<Rightarrow> int \<times> int \<times> int" where
  "ord2ymd ordinal =
     (let n0 = ordinal - 1;
          n400 = n0 div 146097; n1 = n0 mod 146097;
          n100 = n1 div 36524; n2 = n1 mod 36524;
          n4 = n2 div 1461; n3 = n2 mod 1461;
          n1y = n3 div 365; n = n3 mod 365;
          y = n400 * 400 + 1 + n100 * 100 + n4 * 4 + n1y
      in if n1y = 4 \<or> n100 = 4 then (y - 1, 12, 31)
         else
           let leapyear = (n1y = 3 \<and> (n4 \<noteq> 24 \<or> n100 = 3));
               m0 = (n + 50) div 32;
               preceding0 = DAYS_BEFORE_MONTH ! nat m0 + (if m0 > 2 \<and> leapyear then 1 else 0);
               m = (if preceding0 > n then m0 - 1 else m0);
               preceding =
                 (if preceding0 > n
                  then preceding0 - (DAYS_IN_MONTH ! nat m + (if m = 2 \<and> leapyear then 1 else 0))
                  else preceding0)
           in (y, m, n - preceding + 1))"

text \<open>
  \<open>dt - timedelta(days=n)\<close>: the constructor of \<open>timedelta\<close> refuses more than
  999999999 days, and the difference must be a date between 0001-01-01 and 9999-12-31;
  both raise \<open>OverflowError\<close>. The time of day is unchanged.
\<close>

definition sub_days :: "datetime \<Rightarrow> int \<Rightarrow> error + datetime" where
  "sub_days dt n =
     (if \<bar>n\<bar> > 999999999 then Inl OverflowError
      else
        let ordinal = toordinal dt - n
        in if 0 < ordinal \<and> ordinal \<le> MAXORDINAL
           then (case ord2ymd ordinal of
                   (y, m, d) \<Rightarrow> Inr (dt\<lparr>year := y, month := m, day := d\<rparr>))
           else Inl OverflowError)"

text \<open>
  The date range of \<open>collect_and_store_data\<close> (the lines before its \<open>try\<close>): the end is
  the last microsecond of yesterday, the start is midnight \<open>days_to_collect - 1\<close> days
  before the end's day. The pair is \<open>(start_utc, end_utc)\<close>.
\<close>

definition date_range :: "datetime \<Rightarrow> int \<Rightarrow> error + (datetime \<times> datetime)" where
  "date_range today_utc days_to_collect =
     (case sub_days (today_utc\<lparr>hour := 0, minute := 0, second := 0, microsecond := 0\<rparr>) 1 of
        Inl e \<Rightarrow> Inl e
      | Inr end0 \<Rightarrow>
          let end_utc = end0\<lparr>hour := 23, minute := 59, second := 59, microsecond := 999999\<rparr>
          in (case sub_days end_utc (days_to_collect - 1) of
                Inl e \<Rightarrow> Inl e
              | Inr start0 \<Rightarrow>
                  Inr (start0\<lparr>hour := 0, minute := 0, second := 0, microsecond := 0\<rparr>,
                       end_utc)))"

text \<open>
  \<open>dt.isoformat()\<close> of a UTC datetime:
  \<open>YYYY-MM-DDTHH:MM:SS[.ffffff]+00:00\<close>, the fraction only when it is not zero.
  \<open>digits2\<close>, \<open>digits4\<close> and \<open>digits6\<close> are \<open>%02d\<close>, \<open>%04d\<close> and \<open>%06d\<close> on the field
  values of a valid datetime (which have no more digits than that).
\<close>

definition digit :: "int \<Rightarrow> char" where
  "digit n = ''0123456789'' ! nat (n mod 10)"

definition digits2 :: "int \<Rightarrow> string" where
  "digits2 n = [digit (n div 10), digit n]"

definition digits4 :: "int \<Rightarrow> string" where
  "digits4 n = digits2 (n div 100) @ digits2 n"

definition digits6 :: "int \<Rightarrow> string" where
  "digits6 n = digits2 (n div 10000) @ digits4 n"

definition isoformat_utc :: "datetime \<Rightarrow> string" where
  "isoformat_utc dt =
     digits4 (year dt) @ ''-'' @ digits2 (month dt) @ ''-'' @ digits2 (day dt) @ ''T'' @
     digits2 (hour dt) @ '':'' @ digits2 (minute dt) @ '':'' @ digits2 (second dt) @
     (if microsecond dt \<noteq> 0 then ''.'' @ digits6 (microsecond dt) else []) @ ''+00:00''"

subsection \<open>Library functions taken as parameters\<close>

text \<open>
  \<open>float(s)\<close> and \<open>datetime.fromisoformat(s)\<close> accept what the Python library accepts;
  the model takes them as they are, \<open>None\<close> standing for \<open>ValueError\<close>. A datetime
  parsed from the document carries the document's own UTC offset, so its type \<open>'d\<close> is
  left open, with its \<open>isoformat\<close>.
\<close>

record 'd pylib =
  py_float :: "string \<Rightarrow> real option"
  fromisoformat :: "string \<Rightarrow> 'd option"
  isoformat :: "'d \<Rightarrow> string"

subsection \<open>XML elements and the two kinds of path the script uses\<close>

text \<open>
  An \<open>xml.etree.ElementTree.Element\<close>: its tag (with the namespace, as \<open>{uri}name\<close>),
  its text (\<open>None\<close> when the element has none) and its children in document order.
\<close>

datatype element = Element (tag: string) (etext: "string option") (children: "element list")

definition ns :: "string \<Rightarrow> string" where
  "ns name = ''{urn:iec62325.351:tc57wg16:451-6:generationloaddocument:3:0}'' @ name"

text \<open>\<open>e.iter()\<close>: the element and all its descendants, in document order.\<close>

fun iter :: "element \<Rightarrow> element list" where
  "iter (Element t x cs) = Element t x cs # concat (map iter cs)"

text \<open>\<open>e.findall('.//t')\<close>: the descendants of \<open>e\<close> (not \<open>e\<close> itself) with tag \<open>t\<close>.\<close>

definition findall_descendants :: "string \<Rightarrow> element \<Rightarrow> element list" where
  "findall_descendants t e = filter (\<lambda>x. tag x = t) (concat (map iter (children e)))"

text \<open>\<open>e.find('.//t')\<close>: the first of them, or \<open>None\<close>.\<close>

definition find_descendant :: "string \<Rightarrow> element \<Rightarrow> element option" where
  "find_descendant t e = (case findall_descendants t e of [] \<Rightarrow> None | x # _ \<Rightarrow> Some x)"

text \<open>\<open>e.find('.//a/b')\<close>: the first child with tag \<open>b\<close> of a descendant with tag \<open>a\<close>.\<close>

definition find_descendant_child :: "string \<Rightarrow> string \<Rightarrow> element \<Rightarrow> element option" where
  "find_descendant_child a b e =
     (case concat (map (\<lambda>x. filter (\<lambda>c. tag c = b) (children x)) (findall_descendants a e)) of
        [] \<Rightarrow> None
      | x # _ \<Rightarrow> Some x)"

subsection \<open>JSON values\<close>

datatype json =
    JNull
  | JBool bool
  | JNumber real
  | JString string
  | JArray "json list"
  | JObject "(string \<times> json) list"

text \<open>\<open>d.get(k)\<close> on the dict of a JSON object: of a repeated key the last value counts.\<close>

definition dict_get :: "(string \<times> json) list \<Rightarrow> string \<Rightarrow> json option" where
  "dict_get kvs k = map_of (rev kvs) k"

text \<open>
  \<open>x * v\<close> for a float \<open>x\<close> and whatever the intensity fetch returned: a number, a
  \<open>bool\<close> (an \<open>int\<close> in Python), or a value that makes \<open>*\<close> raise \<open>TypeError\<close>.
\<close>

fun float_mul :: "real \<Rightarrow> json \<Rightarrow> error + real" where
  "float_mul x (JNumber y) = Inr (x * y)"
| "float_mul x (JBool b) = Inr (x * (if b then 1 else 0))"
| "float_mul x _ = Inl TypeError"

subsection \<open>The data the script builds\<close>

text \<open>
  The dicts of the script, one record per shape. A key that the script reads with
  \<open>get(key, default)\<close> or with \<open>[key]\<close> is an optional field: \<open>None\<close> is a dict without
  the key.
\<close>

record load_point =
  load_time :: "string option"        \<comment> \<open>key \<open>'time'\<close>\<close>
  load_kwh :: "real option"

record price_point =
  price_time :: string                \<comment> \<open>key \<open>'time'\<close>\<close>
  price_eur_kwh :: "real option"

record fields =
  energy_kwh :: real
  co2eq_g :: real
  cost_eur :: real
  co2_intensity :: json
  fields_price_eur_kwh :: real        \<comment> \<open>key \<open>'price_eur_kwh'\<close> of \<open>fields\<close>\<close>

record point =
  measurement :: string
  time :: string
  point_fields :: fields        \<comment> \<open>key \<open>'fields'\<close>\<close>

subsection \<open>The outside world and what the script does to it\<close>

text \<open>
  An HTTP response: its status code and its body as the script reads it
  (\<open>ET.fromstring(response.content)\<close>, \<open>response.json()\<close>); \<open>None\<close> is a body that does
  not parse (\<open>ParseError\<close>; \<open>requests.JSONDecodeError\<close>, a \<open>RequestException\<close>).
  \<open>raise_for_status\<close> raises \<open>HTTPError\<close> for the codes 400 to 599 and for no other.
\<close>

record 'b response =
  status_code :: int
  body :: "'b option"

definition raise_for_status :: "'b response \<Rightarrow> bool" where
  "raise_for_status r = (400 \<le> status_code r \<and> status_code r < 600)"

record world =
  utcnow :: datetime
    \<comment> \<open>\<open>datetime.now(timezone.utc)\<close>\<close>
  influx_connect :: "error option"
    \<comment> \<open>\<open>InfluxDBClient(...)\<close> with \<open>ping()\<close>: the exception raised, if any\<close>
  entsoe_get :: "element response option"
    \<comment> \<open>\<open>requests.get\<close> on the load source; \<open>None\<close>: it raises \<open>RequestException\<close>\<close>
  electricitymaps_get :: "json response option"
    \<comment> \<open>\<open>requests.get\<close> on the intensity source\<close>
  write_points :: "point list \<Rightarrow> error option"
    \<comment> \<open>\<open>influx_client.write_points\<close>: the exception raised, if any\<close>

datatype level = INFO | WARNING | ERROR

datatype message =
    Connected_to_InfluxDB
  | InfluxDB_Connection_failed error
  | Making_ENTSOE_request datetime datetime
  | Response_status int
  | Request_URL
  | Retrieved_load_points nat
  | ENTSOE_request_failed error
  | XML_parsing_error error
  | Electricity_Maps_request_failed error
  | Requesting_data datetime datetime
  | Successfully_wrote nat
  | No_data_points_to_write
  | Data_collection_failed error
  | Script_execution_failed error

datatype event =
    Log level message
  | HttpGet string
  | WritePoints "point list"

text \<open>A \<open>for\<close> loop that appends one result per item and stops at the first exception.\<close>

fun traverse :: "('a \<Rightarrow> error + 'b) \<Rightarrow> 'a list \<Rightarrow> error + 'b list" where
  "traverse f [] = Inr []"
| "traverse f (x # xs) =
     (case f x of
        Inl e \<Rightarrow> Inl e
      | Inr y \<Rightarrow> (case traverse f xs of Inl e \<Rightarrow> Inl e | Inr ys \<Rightarrow> Inr (y # ys)))"

subsection \<open>\<open>get_entsoe_load\<close>\<close>

text \<open>
  The body of the inner loop: \<open>float(point.find('.//ns:quantity', namespace).text)\<close>.
  \<open>find\<close> returning \<open>None\<close> makes \<open>.text\<close> raise \<open>AttributeError\<close>; a text of \<open>None\<close>
  makes \<open>float\<close> raise \<open>TypeError\<close>.
\<close>

definition load_point_of :: "'d pylib \<Rightarrow> 'd \<Rightarrow> element \<Rightarrow> error + load_point" where
  "load_point_of lib start_date pt =
     (case find_descendant (ns ''quantity'') pt of
        None \<Rightarrow> Inl AttributeError
      | Some q \<Rightarrow>
          (case etext q of
             None \<Rightarrow> Inl TypeError
           | Some s \<Rightarrow>
               (case py_float lib s of
                  None \<Rightarrow> Inl ValueError
                | Some quantity \<Rightarrow>
                    Inr \<lparr>load_time = Some (isoformat lib start_date),
                         load_kwh = Some quantity\<rparr>)))"

text \<open>The body of the outer loop, for one \<open>TimeSeries\<close> element.\<close>

definition timeseries_points :: "'d pylib \<Rightarrow> element \<Rightarrow> error + load_point list" where
  "timeseries_points lib timeseries =
     (case find_descendant (ns ''Period'') timeseries of
        None \<Rightarrow> Inr []
      | Some period \<Rightarrow>
          (case find_descendant_child (ns ''timeInterval'') (ns ''start'') period of
             None \<Rightarrow> Inl AttributeError
           | Some st \<Rightarrow>
               (case etext st of
                  None \<Rightarrow> Inl TypeError
                | Some start_date_str \<Rightarrow>
                    (case fromisoformat lib start_date_str of
                       None \<Rightarrow> Inl ValueError
                     | Some start_date \<Rightarrow>
                         traverse (load_point_of lib start_date)
                           (findall_descendants (ns ''Point'') period)))))"

text \<open>The two loops over the parsed document: the value of \<open>load_points\<close> after them.\<close>

definition parse_load_document :: "'d pylib \<Rightarrow> element \<Rightarrow> error + load_point list" where
  "parse_load_document lib xml_root =
     (case traverse (timeseries_points lib) (findall_descendants (ns ''TimeSeries'') xml_root) of
        Inl e \<Rightarrow> Inl e
      | Inr pss \<Rightarrow> Inr (concat pss))"

definition get_entsoe_load ::
  "'d pylib \<Rightarrow> world \<Rightarrow> datetime \<Rightarrow> datetime \<Rightarrow> (error + load_point list) \<times> event list" where
  "get_entsoe_load lib w start end =
     (let sent = [Log INFO (Making_ENTSOE_request start end),
                  HttpGet ''https://web-api.tp.entsoe.eu/api'']
      in case entsoe_get w of
           None \<Rightarrow> (Inr [], sent @ [Log ERROR (ENTSOE_request_failed RequestException)])
         | Some r \<Rightarrow>
             let got = sent @ [Log INFO (Response_status (status_code r)), Log INFO Request_URL]
             in if raise_for_status r
                then (Inr [], got @ [Log ERROR (ENTSOE_request_failed RequestException)])
                else (case body r of
                        None \<Rightarrow> (Inr [], got @ [Log ERROR (XML_parsing_error ParseError)])
                      | Some xml_root \<Rightarrow>
                          (case parse_load_document lib xml_root of
                             Inl e \<Rightarrow> (Inl e, got)
                           | Inr load_points \<Rightarrow>
                               (Inr load_points,
                                got @ [Log INFO (Retrieved_load_points (length load_points))]))))"

subsection \<open>\<open>get_co2_intensity\<close>\<close>

text \<open>
  \<open>data.get("carbonIntensity", 0)\<close>: a JSON document that is not an object has no
  \<open>get\<close>, which is an \<open>AttributeError\<close> that the \<open>except\<close> clause does not catch.
\<close>

definition get_co2_intensity :: "world \<Rightarrow> string \<Rightarrow> (error + json) \<times> event list" where
  "get_co2_intensity w zone =
     (let sent = [HttpGet ''https://api.electricitymap.org/v3/carbon-intensity/latest''];
          failed = (Inr (JNumber 0),
                    sent @ [Log ERROR (Electricity_Maps_request_failed RequestException)])
      in case electricitymaps_get w of
           None \<Rightarrow> failed
         | Some r \<Rightarrow>
             if raise_for_status r then failed
             else (case body r of
                     None \<Rightarrow> failed
                   | Some (JObject kvs) \<Rightarrow>
                       (Inr (case dict_get kvs ''carbonIntensity'' of
                               None \<Rightarrow> JNumber 0
                             | Some v \<Rightarrow> v), sent)
                   | Some _ \<Rightarrow> (Inl AttributeError, sent)))"

subsection \<open>\<open>get_epex_prices\<close>\<close>

definition get_epex_prices :: "datetime \<Rightarrow> datetime \<Rightarrow> price_point list" where
  "get_epex_prices start end =
     [\<lparr>price_time = isoformat_utc start, price_eur_kwh = Some 0.10\<rparr>]"

subsection \<open>\<open>collect_and_store_data\<close>, the function at module level\<close>

definition manufacturing_factor :: real where
  "manufacturing_factor = 0.23"

text \<open>
  The body of the loop over \<open>load_data\<close>: one InfluxDB point from one load point.
  \<open>energy_kwh * co2_intensity\<close> can raise \<open>TypeError\<close>, \<open>price['price_eur_kwh']\<close> can
  raise \<open>KeyError\<close>, in this order.
\<close>

definition make_point ::
  "json \<Rightarrow> price_point list \<Rightarrow> datetime \<Rightarrow> load_point \<Rightarrow> error + point" where
  "make_point co2 price_data end_utc load =
     (let energy = (case load_kwh load of Some q \<Rightarrow> q | None \<Rightarrow> 0) * manufacturing_factor
      in case float_mul energy co2 of
           Inl e \<Rightarrow> Inl e
         | Inr co2eq \<Rightarrow>
             (case (case price_data of
                      [] \<Rightarrow> Inr 0
                    | price # _ \<Rightarrow>
                        (case price_eur_kwh price of
                           None \<Rightarrow> Inl KeyError
                         | Some v \<Rightarrow> Inr v)) of
                Inl e \<Rightarrow> Inl e
              | Inr price \<Rightarrow>
                  Inr \<lparr>measurement = ''manufacturing_energy'',
                       time = (case load_time load of
                                 Some t \<Rightarrow> t
                               | None \<Rightarrow> isoformat_utc end_utc),
                       point_fields = \<lparr>energy_kwh = energy,
                                 co2eq_g = co2eq,
                                 cost_eur = energy * price,
                                 co2_intensity = co2,
                                 fields_price_eur_kwh = price\<rparr>\<rparr>))"

text \<open>The loop: the value of \<open>points\<close> after it.\<close>

definition compose ::
  "load_point list \<Rightarrow> json \<Rightarrow> price_point list \<Rightarrow> datetime \<Rightarrow> error + point list" where
  "compose load_data co2 price_data end_utc =
     traverse (make_point co2 price_data end_utc) load_data"

text \<open>The \<open>try\<close> block: its result is \<open>Inl e\<close> when it raises \<open>e\<close>.\<close>

definition try_block ::
  "'d pylib \<Rightarrow> world \<Rightarrow> datetime \<Rightarrow> datetime \<Rightarrow> (error + unit) \<times> event list" where
  "try_block lib w start_utc end_utc =
     (case get_entsoe_load lib w start_utc end_utc of
        (Inl e, ev1) \<Rightarrow> (Inl e, ev1)
      | (Inr load_data, ev1) \<Rightarrow>
          (case get_co2_intensity w ''DE'' of
             (Inl e, ev2) \<Rightarrow> (Inl e, ev1 @ ev2)
           | (Inr co2, ev2) \<Rightarrow>
               (case compose load_data co2 (get_epex_prices start_utc end_utc) end_utc of
                  Inl e \<Rightarrow> (Inl e, ev1 @ ev2)
                | Inr points \<Rightarrow>
                    if points \<noteq> []
                    then (case write_points w points of
                            Some e \<Rightarrow> (Inl e, ev1 @ ev2 @ [WritePoints points])
                          | None \<Rightarrow>
                              (Inr (),
                               ev1 @ ev2 @
                               [WritePoints points,
                                Log INFO (Successfully_wrote (length points))]))
                    else (Inr (), ev1 @ ev2 @ [Log WARNING No_data_points_to_write]))))"

text \<open>
  The function: the date range is computed outside the \<open>try\<close>, so its \<open>OverflowError\<close>
  is the one exception that leaves the function; whatever the \<open>try\<close> block raises is
  logged and dropped.
\<close>

definition collect_and_store_data ::
  "'d pylib \<Rightarrow> world \<Rightarrow> int \<Rightarrow> (error + unit) \<times> event list" where
  "collect_and_store_data lib w days_to_collect =
     (case date_range (utcnow w) days_to_collect of
        Inl e \<Rightarrow> (Inl e, [])
      | Inr (start_utc, end_utc) \<Rightarrow>
          (case try_block lib w start_utc end_utc of
             (Inl e, evs) \<Rightarrow>
               (Inr (),
                Log INFO (Requesting_data start_utc end_utc) # evs @
                [Log ERROR (Data_collection_failed e)])
           | (Inr u, evs) \<Rightarrow>
               (Inr (), Log INFO (Requesting_data start_utc end_utc) # evs)))"

subsection \<open>The class \<open>EnergyDataCollector\<close> and \<open>main\<close>\<close>

text \<open>
  \<open>__init__\<close> connects to InfluxDB, logs a failure and raises it again.
  The method \<open>collect_and_store_data(self, days_to_collect, interval_minutes)\<close> of the
  class ends after its docstring: the next line of the file is a \<open>def\<close> in column 0,
  which closes the class. The method therefore does nothing and returns \<open>None\<close>; the
  function above is a different object, at module level. \<open>main\<close> calls the method.
\<close>

definition EnergyDataCollector_init :: "world \<Rightarrow> (error + unit) \<times> event list" where
  "EnergyDataCollector_init w =
     (case influx_connect w of
        Some e \<Rightarrow> (Inl e, [Log ERROR (InfluxDB_Connection_failed e)])
      | None \<Rightarrow> (Inr (), [Log INFO Connected_to_InfluxDB]))"

definition EnergyDataCollector_collect_and_store_data ::
  "world \<Rightarrow> int \<Rightarrow> int \<Rightarrow> (error + unit) \<times> event list" where
  "EnergyDataCollector_collect_and_store_data w days_to_collect interval_minutes =
     (Inr (), [])"

definition main :: "world \<Rightarrow> (error + unit) \<times> event list" where
  "main w =
     (case EnergyDataCollector_init w of
        (Inl e, evs) \<Rightarrow> (Inr (), evs @ [Log ERROR (Script_execution_failed e)])
      | (Inr u, evs) \<Rightarrow>
          (case EnergyDataCollector_collect_and_store_data w 7 15 of
             (Inl e, evs') \<Rightarrow> (Inr (), evs @ evs' @ [Log ERROR (Script_execution_failed e)])
           | (Inr u', evs') \<Rightarrow> (Inr (), evs @ evs')))"

section \<open>Load documents\<close>

text \<open>
  The documents the load source sends (\<open>GL_MarketDocument\<close>): a root with \<open>TimeSeries\<close>
  elements, each with \<open>Period\<close> elements (one as a rule; the schema allows more), each
  with a \<open>timeInterval\<close> (\<open>start\<close>, \<open>end\<close>) and \<open>Point\<close> elements holding a
  \<open>quantity\<close>. At every level there may be other elements (\<open>mRID\<close>, \<open>resolution\<close>,
  \<open>position\<close>, ...), kept as they are. \<open>xml_document\<close> is the element tree of such a
  document.
\<close>

datatype point_doc =
  PointDoc (point_others: "element list") (quantity: string)

datatype period_doc =
  PeriodDoc (period_start: string) (period_end: string) (period_others: "element list")
    (period_points: "point_doc list")

datatype timeseries_doc =
  TimeSeriesDoc (timeseries_others: "element list") (periods: "period_doc list")

datatype load_document =
  LoadDocument (document_others: "element list") (timeseries: "timeseries_doc list")

definition xml_point :: "point_doc \<Rightarrow> element" where
  "xml_point p =
     Element (ns ''Point'') None
       (point_others p @ [Element (ns ''quantity'') (Some (quantity p)) []])"

definition xml_period :: "period_doc \<Rightarrow> element" where
  "xml_period pd =
     Element (ns ''Period'') None
       (Element (ns ''timeInterval'') None
          [Element (ns ''start'') (Some (period_start pd)) [],
           Element (ns ''end'') (Some (period_end pd)) []] #
        period_others pd @ map xml_point (period_points pd))"

definition xml_timeseries :: "timeseries_doc \<Rightarrow> element" where
  "xml_timeseries ts =
     Element (ns ''TimeSeries'') None (timeseries_others ts @ map xml_period (periods ts))"

definition xml_document :: "load_document \<Rightarrow> element" where
  "xml_document d =
     Element (ns ''GL_MarketDocument'') None
       (document_others d @ map xml_timeseries (timeseries d))"

text \<open>
  The other elements are foreign to the structure: neither they nor their descendants
  carry one of the tags the script looks for.
\<close>

definition reserved :: "string set" where
  "reserved =
     set (map ns [''TimeSeries'', ''Period'', ''Point'', ''timeInterval'', ''quantity''])"

definition foreign :: "element \<Rightarrow> bool" where
  "foreign e = list_all (\<lambda>x. tag x \<notin> reserved) (iter e)"

definition point_shaped :: "point_doc \<Rightarrow> bool" where
  "point_shaped p = list_all foreign (point_others p)"

definition period_shaped :: "period_doc \<Rightarrow> bool" where
  "period_shaped pd =
     (list_all foreign (period_others pd) \<and> list_all point_shaped (period_points pd))"

definition timeseries_shaped :: "timeseries_doc \<Rightarrow> bool" where
  "timeseries_shaped ts =
     (list_all foreign (timeseries_others ts) \<and> list_all period_shaped (periods ts))"

definition document_shaped :: "load_document \<Rightarrow> bool" where
  "document_shaped d =
     (list_all foreign (document_others d) \<and> list_all timeseries_shaped (timeseries d))"

text \<open>A period is readable when its start and the quantities of its points parse.\<close>

definition period_readable :: "'d pylib \<Rightarrow> period_doc \<Rightarrow> bool" where
  "period_readable lib pd =
     (fromisoformat lib (period_start pd) \<noteq> None \<and>
      list_all (\<lambda>p. py_float lib (quantity p) \<noteq> None) (period_points pd))"

text \<open>
  The load points of one period: one per point, in order, each at the period's start
  and with the point's quantity.
\<close>

definition period_load_points :: "'d pylib \<Rightarrow> period_doc \<Rightarrow> load_point list" where
  "period_load_points lib pd =
     map (\<lambda>p. \<lparr>load_time = Some (isoformat lib (the (fromisoformat lib (period_start pd)))),
               load_kwh = Some (the (py_float lib (quantity p)))\<rparr>)
       (period_points pd)"

definition all_periods :: "load_document \<Rightarrow> period_doc list" where
  "all_periods d = concat (map periods (timeseries d))"

definition first_periods :: "load_document \<Rightarrow> period_doc list" where
  "first_periods d = concat (map (\<lambda>ts. take 1 (periods ts)) (timeseries d))"

section \<open>Example inputs\<close>

text \<open>
  The inputs at which the theorems below are evaluated. The library functions of the
  examples know the strings that occur in them; \<open>Z\<close> is UTC, as since Python 3.11.
\<close>

definition example_lib :: "datetime pylib" where
  "example_lib =
     \<lparr>py_float = map_of [(''100.0'', 100), (''200.0'', 200), (''300.0'', 300)],
      fromisoformat =
        map_of [(''2024-01-01T00:00Z'',
                 \<lparr>year = 2024, month = 1, day = 1, hour = 0, minute = 0, second = 0,
                    microsecond = 0\<rparr>),
                (''2024-01-02T00:00Z'',
                 \<lparr>year = 2024, month = 1, day = 2, hour = 0, minute = 0, second = 0,
                    microsecond = 0\<rparr>)],
      isoformat = isoformat_utc\<rparr>"

definition position_element :: "string \<Rightarrow> element" where
  "position_element s = Element (ns ''position'') (Some s) []"

text \<open>One period starting 2024-01-01T00:00Z with the quantities 100.0 and 200.0.\<close>

definition example_period :: period_doc where
  "example_period =
     PeriodDoc ''2024-01-01T00:00Z'' ''2024-01-02T00:00Z''
       [Element (ns ''resolution'') (Some ''PT60M'') []]
       [PointDoc [position_element ''1''] ''100.0'',
        PointDoc [position_element ''2''] ''200.0'']"

definition example_document :: load_document where
  "example_document =
     LoadDocument [Element (ns ''mRID'') (Some ''doc'') []]
       [TimeSeriesDoc [Element (ns ''mRID'') (Some ''1'') []] [example_period]]"

definition second_period :: period_doc where
  "second_period =
     PeriodDoc ''2024-01-02T00:00Z'' ''2024-01-03T00:00Z'' []
       [PointDoc [position_element ''1''] ''300.0'']"

text \<open>One \<open>TimeSeries\<close> with two periods.\<close>

definition two_period_document :: load_document where
  "two_period_document =
     LoadDocument [] [TimeSeriesDoc [] [example_period, second_period]]"

definition invocation_instant :: datetime where
  "invocation_instant =
     \<lparr>year = 2024, month = 3, day = 10, hour = 12, minute = 0, second = 0, microsecond = 0\<rparr>"

definition example_start :: datetime where
  "example_start =
     \<lparr>year = 2024, month = 3, day = 3, hour = 0, minute = 0, second = 0, microsecond = 0\<rparr>"

definition example_end :: datetime where
  "example_end =
     \<lparr>year = 2024, month = 3, day = 9, hour = 23, minute = 59, second = 59,
        microsecond = 999999\<rparr>"

text \<open>
  A world in which everything works: the load source sends \<open>example_document\<close>, the
  intensity source sends 400, the database accepts every batch.
\<close>

definition example_world :: world where
  "example_world =
     \<lparr>utcnow = invocation_instant,
      influx_connect = None,
      entsoe_get = Some \<lparr>status_code = 200, body = Some (xml_document example_document)\<rparr>,
      electricitymaps_get =
        Some \<lparr>status_code = 200,
              body = Some (JObject [(''zone'', JString ''DE''),
                                    (''carbonIntensity'', JNumber 400)])\<rparr>,
      write_points = (\<lambda>points. None)\<rparr>"

text \<open>A document whose second quantity is not a number, and a body that is not XML.\<close>

definition unreadable_document :: load_document where
  "unreadable_document =
     LoadDocument []
       [TimeSeriesDoc []
          [PeriodDoc ''2024-01-01T00:00Z'' ''2024-01-02T00:00Z'' []
             [PointDoc [position_element ''1''] ''100.0'',
              PointDoc [position_element ''2''] ''n/a'']]]"

definition unreadable_world :: world where
  "unreadable_world =
     example_world\<lparr>entsoe_get :=
       Some \<lparr>status_code = 200, body = Some (xml_document unreadable_document)\<rparr>\<rparr>"


text \<open>The intensity source answers 300 (no redirect to follow) with a JSON object.\<close>

definition redirect_world :: world where
  "redirect_world =
     example_world\<lparr>electricitymaps_get :=
       Some \<lparr>status_code = 300, body = Some (JObject [(''carbonIntensity'', JNumber 5)])\<rparr>\<rparr>"

text \<open>The load points of \<open>example_document\<close> and the batch composed from them.\<close>

definition example_loads :: "load_point list" where
  "example_loads =
     [\<lparr>load_time = Some ''2024-01-01T00:00:00+00:00'', load_kwh = Some 100\<rparr>,
      \<lparr>load_time = Some ''2024-01-01T00:00:00+00:00'', load_kwh = Some 200\<rparr>]"

definition example_batch :: "point list" where
  "example_batch =
     [\<lparr>measurement = ''manufacturing_energy'', time = ''2024-01-01T00:00:00+00:00'',
        point_fields = \<lparr>energy_kwh = 23, co2eq_g = 9200, cost_eur = 2.3,
                         co2_intensity = JNumber 400, fields_price_eur_kwh = 0.1\<rparr>\<rparr>,
      \<lparr>measurement = ''manufacturing_energy'', time = ''2024-01-01T00:00:00+00:00'',
        point_fields = \<lparr>energy_kwh = 46, co2eq_g = 18400, cost_eur = 4.6,
                         co2_intensity = JNumber 400, fields_price_eur_kwh = 0.1\<rparr>\<rparr>]"

text \<open>The batches handed to \<open>write_points\<close> in a list of events, in order.\<close>

fun writes :: "event list \<Rightarrow> point list list" where
  "writes [] = []"
| "writes (WritePoints points # evs) = points # writes evs"
| "writes (Log l m # evs) = writes evs"
| "writes (HttpGet url # evs) = writes evs"

text \<open>A database that refuses every batch, and a load document without any \<open>TimeSeries\<close>.\<close>

definition failing_write_world :: world where
  "failing_write_world = example_world\<lparr>write_points := (\<lambda>points. Some InfluxDBError)\<rparr>"

definition empty_load_world :: world where
  "empty_load_world =
     example_world\<lparr>entsoe_get :=
       Some \<lparr>status_code = 200, body = Some (xml_document (LoadDocument [] []))\<rparr>\<rparr>"

text \<open>No load points, and an intensity source that answers with a JSON array.\<close>

definition array_world :: world where
  "array_world =
     empty_load_world\<lparr>electricitymaps_get :=
       Some \<lparr>status_code = 200, body = Some (JArray [])\<rparr>\<rparr>"

section \<open>Theorems\<close>

subsection \<open>The date range\<close>

lemmas calendar_defs =
  date_range_def sub_days_def toordinal_def ymd2ord_def days_before_year_def
  days_before_month_def DAYS_BEFORE_MONTH_def DAYS_IN_MONTH_def is_leap_def
  MAXORDINAL_def ord2ymd_def Let_def

lemmas isoformat_defs = isoformat_utc_def digits2_def digits4_def digits6_def digit_def

lemma date_range_at_invocation_instant:
  "date_range invocation_instant 7 = Inr (example_start, example_end)"
  by (simp add: invocation_instant_def example_start_def example_end_def calendar_defs)

text \<open>
  C2, as stated: invoked at 2024-03-10T12:00:00Z with \<open>days_to_collect = 7\<close>, the range
  starts at 2024-03-02T00:00:00Z and ends at 2024-03-09T23:59:59.999999Z. The code
  computes another start, so the statement is false.
\<close>

theorem date_range_start_counterexample:
  "date_range
     \<lparr>year = 2024, month = 3, day = 10, hour = 12, minute = 0, second = 0,
        microsecond = 0\<rparr> 7 \<noteq>
     Inr (\<lparr>year = 2024, month = 3, day = 2, hour = 0, minute = 0, second = 0,
            microsecond = 0\<rparr>,
          \<lparr>year = 2024, month = 3, day = 9, hour = 23, minute = 59, second = 59,
            microsecond = 999999\<rparr>)"
  using date_range_at_invocation_instant
  by (simp add: invocation_instant_def example_start_def)

text \<open>
  C2, amended: invoked at 2024-03-10T12:00:00Z with \<open>days_to_collect = 7\<close>, the range
  starts at 2024-03-03T00:00:00Z and ends at 2024-03-09T23:59:59.999999Z. These are 7
  whole UTC days: the end is on the day before the invocation, and the start is 6 days
  before the end, at midnight. The range is the same at every time of that day: no
  part of the day of the invocation is in it.
\<close>

theorem date_range_seven_days:
  "date_range
     \<lparr>year = 2024, month = 3, day = 10, hour = 12, minute = 0, second = 0,
        microsecond = 0\<rparr> 7 =
     Inr (\<lparr>year = 2024, month = 3, day = 3, hour = 0, minute = 0, second = 0,
            microsecond = 0\<rparr>,
          \<lparr>year = 2024, month = 3, day = 9, hour = 23, minute = 59, second = 59,
            microsecond = 999999\<rparr>) \<and>
   toordinal example_end = toordinal invocation_instant - 1 \<and>
   toordinal example_end - toordinal example_start + 1 = 7 \<and>
   date_range
     \<lparr>year = 2024, month = 3, day = 10, hour = h, minute = m, second = s,
        microsecond = us\<rparr> 7 = Inr (example_start, example_end)"
proof -
  have "toordinal example_end = toordinal invocation_instant - 1"
    by (simp add: invocation_instant_def example_end_def toordinal_def ymd2ord_def
        days_before_year_def days_before_month_def DAYS_BEFORE_MONTH_def is_leap_def)
  moreover have "toordinal example_end - toordinal example_start + 1 = 7"
    by (simp add: example_start_def example_end_def toordinal_def ymd2ord_def
        days_before_year_def days_before_month_def DAYS_BEFORE_MONTH_def is_leap_def)
  moreover have "date_range
     \<lparr>year = 2024, month = 3, day = 10, hour = h, minute = m, second = s,
        microsecond = us\<rparr> 7 = Inr (example_start, example_end)"
    by (simp add: example_start_def example_end_def calendar_defs)
  ultimately show ?thesis
    using date_range_at_invocation_instant
    by (simp add: invocation_instant_def example_start_def example_end_def)
qed

subsection \<open>What the paths find in a load document, and what the parser makes of it\<close>

lemma ns_eq_iff: "ns a = ns b \<longleftrightarrow> a = b"
  by (simp add: ns_def)

lemma foreign_iff: "foreign e \<longleftrightarrow> (\<forall>x \<in> set (iter e). tag x \<notin> reserved)"
  unfolding foreign_def list_all_iff ..

lemma filter_iter_foreign:
  "foreign e \<Longrightarrow> t \<in> reserved \<Longrightarrow> filter (\<lambda>x. tag x = t) (iter e) = []"
  unfolding foreign_iff filter_empty_conv by blast

lemma filter_concat_iter_foreign:
  "list_all foreign es \<Longrightarrow> t \<in> reserved \<Longrightarrow>
   filter (\<lambda>x. tag x = t) (concat (map iter es)) = []"
  by (induction es) (simp_all add: filter_iter_foreign)

lemma reserved_tags:
  "ns ''TimeSeries'' \<in> reserved" "ns ''Period'' \<in> reserved" "ns ''Point'' \<in> reserved"
  "ns ''timeInterval'' \<in> reserved" "ns ''quantity'' \<in> reserved"
  by (simp_all add: reserved_def)

lemma iter_xml_point:
  "iter (xml_point p) =
     xml_point p # concat (map iter (point_others p)) @ [Element (ns ''quantity'') (Some (quantity p)) []]"
  by (simp add: xml_point_def)

lemma tag_xml_point: "tag (xml_point p) = ns ''Point''"
  by (simp add: xml_point_def)

lemma points_in_point:
  assumes "point_shaped p"
  shows "filter (\<lambda>x. tag x = ns ''Point'') (iter (xml_point p)) = [xml_point p]"
    and "filter (\<lambda>x. tag x = ns ''Period'') (iter (xml_point p)) = []"
    and "filter (\<lambda>x. tag x = ns ''TimeSeries'') (iter (xml_point p)) = []"
    and "filter (\<lambda>x. tag x = ns ''timeInterval'') (iter (xml_point p)) = []"
    and "filter (\<lambda>x. tag x = ns ''quantity'') (iter (xml_point p)) =
           [Element (ns ''quantity'') (Some (quantity p)) []]"
  using assms
  by (simp_all add: iter_xml_point tag_xml_point point_shaped_def ns_eq_iff
      filter_concat_iter_foreign reserved_tags)

lemma points_in_points:
  assumes "list_all point_shaped ps"
  shows "filter (\<lambda>x. tag x = ns ''Point'') (concat (map (iter \<circ> xml_point) ps)) = map xml_point ps"
    and "filter (\<lambda>x. tag x = ns ''Period'') (concat (map (iter \<circ> xml_point) ps)) = []"
    and "filter (\<lambda>x. tag x = ns ''TimeSeries'') (concat (map (iter \<circ> xml_point) ps)) = []"
    and "filter (\<lambda>x. tag x = ns ''timeInterval'') (concat (map (iter \<circ> xml_point) ps)) = []"
  using assms by (induction ps) (simp_all add: points_in_point)

lemma iter_xml_period:
  "iter (xml_period pd) =
     xml_period pd #
     Element (ns ''timeInterval'') None
       [Element (ns ''start'') (Some (period_start pd)) [],
        Element (ns ''end'') (Some (period_end pd)) []] #
     Element (ns ''start'') (Some (period_start pd)) [] #
     Element (ns ''end'') (Some (period_end pd)) [] #
     concat (map iter (period_others pd)) @ concat (map iter (map xml_point (period_points pd)))"
  by (simp add: xml_period_def)

lemma tag_xml_period: "tag (xml_period pd) = ns ''Period''"
  by (simp add: xml_period_def)

lemma children_xml_period:
  "children (xml_period pd) =
     Element (ns ''timeInterval'') None
       [Element (ns ''start'') (Some (period_start pd)) [],
        Element (ns ''end'') (Some (period_end pd)) []] #
     period_others pd @ map xml_point (period_points pd)"
  by (simp add: xml_period_def)

lemma periods_in_period:
  assumes "period_shaped pd"
  shows "filter (\<lambda>x. tag x = ns ''Period'') (iter (xml_period pd)) = [xml_period pd]"
    and "filter (\<lambda>x. tag x = ns ''TimeSeries'') (iter (xml_period pd)) = []"
  using assms
  by (simp_all add: iter_xml_period tag_xml_period period_shaped_def ns_eq_iff
      filter_concat_iter_foreign reserved_tags points_in_points)

lemma findall_Point_period:
  assumes "period_shaped pd"
  shows "findall_descendants (ns ''Point'') (xml_period pd) = map xml_point (period_points pd)"
  using assms
  by (simp add: findall_descendants_def children_xml_period period_shaped_def ns_eq_iff
      filter_concat_iter_foreign reserved_tags points_in_points)

lemma find_start_period:
  assumes "period_shaped pd"
  shows "find_descendant_child (ns ''timeInterval'') (ns ''start'') (xml_period pd) =
           Some (Element (ns ''start'') (Some (period_start pd)) [])"
  using assms
  by (simp add: find_descendant_child_def findall_descendants_def children_xml_period
      period_shaped_def ns_eq_iff filter_concat_iter_foreign reserved_tags points_in_points)

lemma periods_in_periods:
  assumes "list_all period_shaped ps"
  shows "filter (\<lambda>x. tag x = ns ''Period'') (concat (map (iter \<circ> xml_period) ps)) = map xml_period ps"
    and "filter (\<lambda>x. tag x = ns ''TimeSeries'') (concat (map (iter \<circ> xml_period) ps)) = []"
  using assms by (induction ps) (simp_all add: periods_in_period)

lemma tag_xml_timeseries: "tag (xml_timeseries ts) = ns ''TimeSeries''"
  by (simp add: xml_timeseries_def)

lemma children_xml_timeseries:
  "children (xml_timeseries ts) = timeseries_others ts @ map xml_period (periods ts)"
  by (simp add: xml_timeseries_def)

lemma iter_xml_timeseries:
  "iter (xml_timeseries ts) =
     xml_timeseries ts # concat (map iter (timeseries_others ts)) @
     concat (map iter (map xml_period (periods ts)))"
  by (simp add: xml_timeseries_def)

lemma findall_Period_timeseries:
  assumes "timeseries_shaped ts"
  shows "findall_descendants (ns ''Period'') (xml_timeseries ts) = map xml_period (periods ts)"
  using assms
  by (simp add: findall_descendants_def children_xml_timeseries timeseries_shaped_def
      filter_concat_iter_foreign reserved_tags periods_in_periods)

lemma timeseries_in_timeseries:
  assumes "list_all timeseries_shaped tss"
  shows "filter (\<lambda>x. tag x = ns ''TimeSeries'') (concat (map (iter \<circ> xml_timeseries) tss)) =
           map xml_timeseries tss"
  using assms
  by (induction tss)
     (simp_all add: iter_xml_timeseries tag_xml_timeseries timeseries_shaped_def
        filter_concat_iter_foreign reserved_tags periods_in_periods)

lemma findall_TimeSeries_document:
  assumes "document_shaped d"
  shows "findall_descendants (ns ''TimeSeries'') (xml_document d) =
           map xml_timeseries (timeseries d)"
  using assms
  by (simp add: findall_descendants_def xml_document_def document_shaped_def
      filter_concat_iter_foreign reserved_tags timeseries_in_timeseries)

lemma find_quantity_point:
  assumes "point_shaped p"
  shows "find_descendant (ns ''quantity'') (xml_point p) =
           Some (Element (ns ''quantity'') (Some (quantity p)) [])"
  using assms
  by (simp add: find_descendant_def findall_descendants_def xml_point_def point_shaped_def
      filter_concat_iter_foreign reserved_tags)

lemma load_point_of_xml_point:
  assumes "point_shaped p"
  shows "load_point_of lib start_date (xml_point p) =
           (case py_float lib (quantity p) of
              None \<Rightarrow> Inl ValueError
            | Some v \<Rightarrow> Inr \<lparr>load_time = Some (isoformat lib start_date), load_kwh = Some v\<rparr>)"
  by (simp add: load_point_of_def find_quantity_point [OF assms])

lemma traverse_points:
  assumes "list_all point_shaped ps"
    and "list_all (\<lambda>p. py_float lib (quantity p) \<noteq> None) ps"
  shows "traverse (load_point_of lib start_date) (map xml_point ps) =
           Inr (map (\<lambda>p. \<lparr>load_time = Some (isoformat lib start_date),
                           load_kwh = Some (the (py_float lib (quantity p)))\<rparr>) ps)"
  using assms by (induction ps) (auto simp: load_point_of_xml_point)

lemma timeseries_points_xml:
  assumes "timeseries_shaped ts"
  shows "timeseries_points lib (xml_timeseries ts) =
           (case periods ts of
              [] \<Rightarrow> Inr []
            | pd # _ \<Rightarrow>
                (case fromisoformat lib (period_start pd) of
                   None \<Rightarrow> Inl ValueError
                 | Some start_date \<Rightarrow>
                     traverse (load_point_of lib start_date) (map xml_point (period_points pd))))"
  using assms
  by (cases "periods ts")
     (simp_all add: timeseries_points_def find_descendant_def findall_Period_timeseries
        timeseries_shaped_def find_start_period findall_Point_period split: option.split)

lemma timeseries_points_first_period:
  assumes "timeseries_shaped ts" and "list_all (period_readable lib) (take 1 (periods ts))"
  shows "timeseries_points lib (xml_timeseries ts) =
           Inr (concat (map (period_load_points lib) (take 1 (periods ts))))"
  using assms
  by (cases "periods ts")
     (auto simp: timeseries_points_xml timeseries_shaped_def period_shaped_def
        period_readable_def period_load_points_def traverse_points)

lemma traverse_timeseries:
  assumes "list_all timeseries_shaped tss"
    and "list_all (\<lambda>ts. list_all (period_readable lib) (take 1 (periods ts))) tss"
  shows "traverse (timeseries_points lib) (map xml_timeseries tss) =
           Inr (map (\<lambda>ts. concat (map (period_load_points lib) (take 1 (periods ts)))) tss)"
  using assms by (induction tss) (simp_all add: timeseries_points_first_period)

lemma concat_map_concat:
  "concat (map f (concat xss)) = concat (map (\<lambda>xs. concat (map f xs)) xss)"
  by (induction xss) simp_all

lemma parse_first_periods:
  assumes "document_shaped d" and "list_all (period_readable lib) (first_periods d)"
  shows "parse_load_document lib (xml_document d) =
           Inr (concat (map (period_load_points lib) (first_periods d)))"
proof -
  have shaped: "list_all timeseries_shaped (timeseries d)"
    using assms(1) by (simp add: document_shaped_def)
  have readable: "list_all (\<lambda>ts. list_all (period_readable lib) (take 1 (periods ts))) (timeseries d)"
    using assms(2) by (auto simp: first_periods_def list_all_iff)
  show ?thesis
    by (simp add: parse_load_document_def findall_TimeSeries_document [OF assms(1)]
        traverse_timeseries [OF shaped readable] first_periods_def concat_map_concat o_def)
qed

lemma points_in_period:
  assumes "period_shaped pd"
  shows "filter (\<lambda>x. tag x = ns ''Point'') (iter (xml_period pd)) = map xml_point (period_points pd)"
  using assms
  by (simp add: iter_xml_period tag_xml_period period_shaped_def ns_eq_iff
      filter_concat_iter_foreign reserved_tags points_in_points)

lemma points_in_periods:
  assumes "list_all period_shaped ps"
  shows "filter (\<lambda>x. tag x = ns ''Point'') (concat (map (iter \<circ> xml_period) ps)) =
           map xml_point (concat (map period_points ps))"
  using assms by (induction ps) (simp_all add: points_in_period)

lemma points_in_timeseries:
  assumes "list_all timeseries_shaped tss"
  shows "filter (\<lambda>x. tag x = ns ''Point'') (concat (map (iter \<circ> xml_timeseries) tss)) =
           map xml_point (concat (map period_points (concat (map periods tss))))"
  using assms
  by (induction tss)
     (simp_all add: iter_xml_timeseries tag_xml_timeseries timeseries_shaped_def ns_eq_iff
        filter_concat_iter_foreign reserved_tags points_in_periods)

lemma findall_Point_document:
  assumes "document_shaped d"
  shows "findall_descendants (ns ''Point'') (xml_document d) =
           map xml_point (concat (map period_points (all_periods d)))"
  using assms
  by (simp add: findall_descendants_def xml_document_def document_shaped_def all_periods_def
      filter_concat_iter_foreign reserved_tags points_in_timeseries)

lemma length_period_load_points:
  "length (concat (map (period_load_points lib) ps)) = length (concat (map period_points ps))"
  by (induction ps) (simp_all add: period_load_points_def)

lemma fst_get_entsoe_load:
  assumes "entsoe_get w = Some r" and "\<not> raise_for_status r" and "body r = Some x"
  shows "fst (get_entsoe_load lib w s e) = parse_load_document lib x"
  using assms by (simp add: get_entsoe_load_def Let_def split: sum.split)

lemma first_periods_all:
  assumes "\<forall>ts \<in> set (timeseries d). length (periods ts) \<le> 1"
  shows "first_periods d = all_periods d"
proof -
  have "take 1 (periods ts) = periods ts" if "ts \<in> set (timeseries d)" for ts
    using assms that by simp
  then show ?thesis
    unfolding first_periods_def all_periods_def by (simp cong: map_cong)
qed

lemma foreign_position: "foreign (position_element s)"
  by (simp add: foreign_def reserved_def position_element_def ns_eq_iff)

lemma example_document_shaped: "document_shaped example_document"
  by (simp add: document_shaped_def example_document_def timeseries_shaped_def period_shaped_def
      example_period_def point_shaped_def foreign_position)
     (simp add: foreign_def reserved_def ns_eq_iff)

lemma example_period_readable: "period_readable example_lib example_period"
  by (simp add: period_readable_def example_period_def example_lib_def)

lemma two_period_document_shaped: "document_shaped two_period_document"
  by (simp add: document_shaped_def two_period_document_def timeseries_shaped_def
      period_shaped_def example_period_def second_period_def point_shaped_def foreign_position)
     (simp add: foreign_def reserved_def ns_eq_iff)

lemma second_period_readable: "period_readable example_lib second_period"
  by (simp add: period_readable_def second_period_def example_lib_def)

lemma example_period_load_points:
  "period_load_points example_lib example_period =
     [\<lparr>load_time = Some ''2024-01-01T00:00:00+00:00'', load_kwh = Some 100\<rparr>,
      \<lparr>load_time = Some ''2024-01-01T00:00:00+00:00'', load_kwh = Some 200\<rparr>]"
  by (simp add: period_load_points_def example_period_def example_lib_def isoformat_defs)

lemma two_period_document_readable:
  "list_all (period_readable example_lib) (all_periods two_period_document)"
  by (simp add: all_periods_def two_period_document_def example_period_readable
      second_period_readable)

lemma parse_two_period_document:
  "parse_load_document example_lib (xml_document two_period_document) = Inr example_loads"
proof -
  have first: "first_periods two_period_document = [example_period]"
    by (simp add: first_periods_def two_period_document_def)
  have "list_all (period_readable example_lib) (first_periods two_period_document)"
    by (simp add: first example_period_readable)
  from parse_first_periods [OF two_period_document_shaped this] show ?thesis
    by (simp add: first example_period_load_points example_loads_def)
qed

lemma count_two_period_document:
  "length (findall_descendants (ns ''Point'') (xml_document two_period_document)) = 3"
  by (simp add: findall_Point_document [OF two_period_document_shaped])
     (simp add: all_periods_def two_period_document_def example_period_def second_period_def)

text \<open>
  C4, as stated: for every valid load document with N \<open>Point\<close> elements across its
  periods the parser returns N load points. The schema of the load document allows
  several periods in a \<open>TimeSeries\<close>; in a document with two periods in one \<open>TimeSeries\<close>
  and three \<open>Point\<close> elements, all of them readable, the parser returns two load points.
\<close>

theorem later_period_counterexample:
  "document_shaped two_period_document \<and>
   list_all (period_readable example_lib) (all_periods two_period_document) \<and>
   length (findall_descendants (ns ''Point'') (xml_document two_period_document)) = 3 \<and>
   parse_load_document example_lib (xml_document two_period_document) =
     Inr [\<lparr>load_time = Some ''2024-01-01T00:00:00+00:00'', load_kwh = Some 100\<rparr>,
          \<lparr>load_time = Some ''2024-01-01T00:00:00+00:00'', load_kwh = Some 200\<rparr>]"
  using two_period_document_shaped two_period_document_readable count_two_period_document
    parse_two_period_document
  by (simp add: example_loads_def)

text \<open>
  C4, amended: for every valid load document in which no \<open>TimeSeries\<close> has more than one
  \<open>Period\<close>, and whose starts and quantities parse, the parser returns one load point per
  \<open>Point\<close> element of the document, in document order, each with the start of its
  period as time and the quantity of its point as \<open>load_kwh\<close>; so does
  \<open>get_entsoe_load\<close> when the response carries the document.
\<close>

theorem valid_document_parse:
  assumes "document_shaped d"
    and "\<forall>ts \<in> set (timeseries d). length (periods ts) \<le> 1"
    and "\<forall>pd \<in> set (all_periods d). period_readable lib pd"
  shows "parse_load_document lib (xml_document d) =
           Inr (concat (map (period_load_points lib) (all_periods d))) \<and>
         length (concat (map (period_load_points lib) (all_periods d))) =
           length (findall_descendants (ns ''Point'') (xml_document d)) \<and>
         (\<forall>r. entsoe_get w = Some r \<and> \<not> raise_for_status r \<and> body r = Some (xml_document d) \<longrightarrow>
            fst (get_entsoe_load lib w start_utc end_utc) =
              Inr (concat (map (period_load_points lib) (all_periods d))))"
proof -
  have eq: "first_periods d = all_periods d"
    using assms(2) by (rule first_periods_all)
  have readable: "list_all (period_readable lib) (first_periods d)"
    using assms(3) by (simp add: eq list_all_iff)
  have parse: "parse_load_document lib (xml_document d) =
      Inr (concat (map (period_load_points lib) (all_periods d)))"
    using parse_first_periods [OF assms(1) readable] by (simp add: eq)
  have count: "length (concat (map (period_load_points lib) (all_periods d))) =
      length (findall_descendants (ns ''Point'') (xml_document d))"
    by (simp add: findall_Point_document [OF assms(1)] length_period_load_points)
  show ?thesis
    using parse count by (simp add: fst_get_entsoe_load)
qed

theorem valid_document_parse_witness:
  "document_shaped example_document \<and>
   length (periods (hd (timeseries example_document))) = 1 \<and>
   period_readable example_lib example_period \<and>
   length (findall_descendants (ns ''Point'') (xml_document example_document)) = 2 \<and>
   fst (get_entsoe_load example_lib example_world example_start example_end) =
     Inr [\<lparr>load_time = Some ''2024-01-01T00:00:00+00:00'', load_kwh = Some 100\<rparr>,
          \<lparr>load_time = Some ''2024-01-01T00:00:00+00:00'', load_kwh = Some 200\<rparr>]"
proof -
  have all: "all_periods example_document = [example_period]"
    by (simp add: all_periods_def example_document_def)
  have one: "\<forall>ts \<in> set (timeseries example_document). length (periods ts) \<le> 1"
    by (simp add: example_document_def)
  have readable: "\<forall>pd \<in> set (all_periods example_document). period_readable example_lib pd"
    by (simp add: all example_period_readable)
  note parsed = valid_document_parse [OF example_document_shaped one readable,
      of example_world example_start example_end]
  have fetch: "fst (get_entsoe_load example_lib example_world example_start example_end) =
      Inr (period_load_points example_lib example_period)"
    using parsed by (simp add: all example_world_def raise_for_status_def)
  have count: "length (findall_descendants (ns ''Point'') (xml_document example_document)) = 2"
    using parsed by (simp add: all example_period_load_points)
  have periods: "length (periods (hd (timeseries example_document))) = 1"
    by (simp add: example_document_def)
  show ?thesis
    using fetch count periods example_document_shaped example_period_readable
    by (simp add: example_period_load_points)
qed

text \<open>
  C10: whatever the number of periods of a \<open>TimeSeries\<close>, the parser reads the start of
  its first period and returns the load points of that period only; the later periods
  are not read at all (their starts and quantities need not even parse).
\<close>

theorem only_first_period_read:
  assumes "document_shaped d"
    and "\<forall>pd \<in> set (first_periods d). period_readable lib pd"
  shows "parse_load_document lib (xml_document d) =
           Inr (concat (map (period_load_points lib) (first_periods d))) \<and>
         (\<forall>r. entsoe_get w = Some r \<and> \<not> raise_for_status r \<and> body r = Some (xml_document d) \<longrightarrow>
            fst (get_entsoe_load lib w start_utc end_utc) =
              Inr (concat (map (period_load_points lib) (first_periods d))))"
proof -
  have readable: "list_all (period_readable lib) (first_periods d)"
    using assms(2) by (simp add: list_all_iff)
  show ?thesis
    using parse_first_periods [OF assms(1) readable] by (simp add: fst_get_entsoe_load)
qed

theorem only_first_period_read_witness:
  "document_shaped two_period_document \<and>
   periods (hd (timeseries two_period_document)) = [example_period, second_period] \<and>
   length (findall_descendants (ns ''Point'') (xml_document two_period_document)) = 3 \<and>
   fst (get_entsoe_load example_lib
          (example_world\<lparr>entsoe_get :=
             Some \<lparr>status_code = 200, body = Some (xml_document two_period_document)\<rparr>\<rparr>)
          example_start example_end) =
     Inr [\<lparr>load_time = Some ''2024-01-01T00:00:00+00:00'', load_kwh = Some 100\<rparr>,
          \<lparr>load_time = Some ''2024-01-01T00:00:00+00:00'', load_kwh = Some 200\<rparr>]"
proof -
  have first: "first_periods two_period_document = [example_period]"
    by (simp add: first_periods_def two_period_document_def)
  have readable: "\<forall>pd \<in> set (first_periods two_period_document). period_readable example_lib pd"
    by (simp add: first example_period_readable)
  have fetch: "fst (get_entsoe_load example_lib
          (example_world\<lparr>entsoe_get :=
             Some \<lparr>status_code = 200, body = Some (xml_document two_period_document)\<rparr>\<rparr>)
          example_start example_end) =
       Inr (period_load_points example_lib example_period)"
    using only_first_period_read [OF two_period_document_shaped readable,
        of "example_world\<lparr>entsoe_get :=
             Some \<lparr>status_code = 200, body = Some (xml_document two_period_document)\<rparr>\<rparr>"
           example_start example_end]
    by (simp add: first raise_for_status_def)
  note count = count_two_period_document
  have periods: "periods (hd (timeseries two_period_document)) = [example_period, second_period]"
    by (simp add: two_period_document_def)
  show ?thesis
    using fetch count periods two_period_document_shaped
    by (simp add: example_period_load_points)
qed

subsection \<open>The exceptions of the load fetch\<close>

lemma traverse_Inl:
  "traverse f xs = Inl e \<Longrightarrow> \<exists>x \<in> set xs. f x = Inl e"
  by (induction xs) (auto split: sum.splits)






lemma traverse_points_unreadable:
  assumes "list_all point_shaped ps"
    and "\<not> list_all (\<lambda>p. py_float lib (quantity p) \<noteq> None) ps"
  shows "traverse (load_point_of lib start_date) (map xml_point ps) = Inl ValueError"
  using assms by (induction ps) (auto simp: load_point_of_xml_point split: sum.splits option.splits dest: traverse_Inl)

lemma timeseries_points_unreadable:
  assumes "timeseries_shaped ts"
    and "\<not> list_all (period_readable lib) (take 1 (periods ts))"
  shows "timeseries_points lib (xml_timeseries ts) = Inl ValueError"
  using assms
  by (cases "periods ts")
     (auto simp: timeseries_points_xml timeseries_shaped_def period_shaped_def
        period_readable_def traverse_points_unreadable split: option.splits)

lemma traverse_timeseries_unreadable:
  assumes "list_all timeseries_shaped tss"
    and "\<not> list_all (\<lambda>ts. list_all (period_readable lib) (take 1 (periods ts))) tss"
  shows "traverse (timeseries_points lib) (map xml_timeseries tss) = Inl ValueError"
  using assms
proof (induction tss)
  case Nil
  then show ?case by simp
next
  case (Cons ts tss)
  show ?case
  proof (cases "list_all (period_readable lib) (take 1 (periods ts))")
    case True
    with Cons show ?thesis
      by (simp add: timeseries_points_first_period)
  next
    case False
    with Cons.prems show ?thesis
      by (simp add: timeseries_points_unreadable)
  qed
qed

lemma parse_unreadable:
  assumes "document_shaped d" and "\<not> list_all (period_readable lib) (first_periods d)"
  shows "parse_load_document lib (xml_document d) = Inl ValueError"
proof -
  have shaped: "list_all timeseries_shaped (timeseries d)"
    using assms(1) by (simp add: document_shaped_def)
  have unreadable:
    "\<not> list_all (\<lambda>ts. list_all (period_readable lib) (take 1 (periods ts))) (timeseries d)"
    using assms(2) by (auto simp: first_periods_def list_all_iff)
  show ?thesis
    by (simp add: parse_load_document_def findall_TimeSeries_document [OF assms(1)]
        traverse_timeseries_unreadable [OF shaped unreadable])
qed

lemma unreadable_document_shaped: "document_shaped unreadable_document"
  by (simp add: document_shaped_def unreadable_document_def timeseries_shaped_def
      period_shaped_def point_shaped_def foreign_position)

lemma unreadable_document_unreadable:
  "\<not> list_all (period_readable example_lib) (first_periods unreadable_document)"
  by (simp add: first_periods_def unreadable_document_def period_readable_def example_lib_def)




subsection \<open>The intensity fetch\<close>

lemma get_co2_intensity_object:
  assumes "electricitymaps_get w = Some r" and "\<not> raise_for_status r"
    and "body r = Some (JObject kvs)"
  shows "fst (get_co2_intensity w zone) =
           Inr (case dict_get kvs ''carbonIntensity'' of None \<Rightarrow> JNumber 0 | Some v \<Rightarrow> v)"
  using assms by (simp add: get_co2_intensity_def Let_def)

lemma get_co2_intensity_failed:
  assumes "electricitymaps_get w = None \<or>
     (\<exists>r. electricitymaps_get w = Some r \<and> (raise_for_status r \<or> body r = None))"
  shows "fst (get_co2_intensity w zone) = Inr (JNumber 0)"
  using assms by (auto simp: get_co2_intensity_def Let_def)

text \<open>
  C6, as stated: the intensity fetch returns 0 on every status that is not 2xx. At
  status 300 with a JSON object as body it returns the object's \<open>carbonIntensity\<close>, 5.
\<close>

theorem intensity_status_counterexample:
  "electricitymaps_get redirect_world =
     Some \<lparr>status_code = 300, body = Some (JObject [(''carbonIntensity'', JNumber 5)])\<rparr> \<and>
   fst (get_co2_intensity redirect_world ''DE'') = Inr (JNumber 5)"
  by (simp add: redirect_world_def get_co2_intensity_def raise_for_status_def dict_get_def)

text \<open>
  C6, amended: when the status is neither 4xx nor 5xx (as on success) and the body is a
  JSON object, the intensity fetch returns the object's \<open>carbonIntensity\<close> field, and 0
  when the object has no such field; it returns 0, raising nothing, on a network error,
  on a status 4xx or 5xx, and on a body that is not JSON.
\<close>

theorem intensity_fetch:
  "(\<forall>r kvs. electricitymaps_get w = Some r \<and> (status_code r < 400 \<or> 600 \<le> status_code r) \<and>
      body r = Some (JObject kvs) \<longrightarrow>
      fst (get_co2_intensity w zone) =
        Inr (case dict_get kvs ''carbonIntensity'' of None \<Rightarrow> JNumber 0 | Some v \<Rightarrow> v)) \<and>
   (electricitymaps_get w = None \<longrightarrow> fst (get_co2_intensity w zone) = Inr (JNumber 0)) \<and>
   (\<forall>r. electricitymaps_get w = Some r \<and>
      ((400 \<le> status_code r \<and> status_code r < 600) \<or> body r = None) \<longrightarrow>
      fst (get_co2_intensity w zone) = Inr (JNumber 0))"
proof (intro conjI allI impI)
  fix r kvs
  assume "electricitymaps_get w = Some r \<and> (status_code r < 400 \<or> 600 \<le> status_code r) \<and>
      body r = Some (JObject kvs)"
  then show "fst (get_co2_intensity w zone) =
        Inr (case dict_get kvs ''carbonIntensity'' of None \<Rightarrow> JNumber 0 | Some v \<Rightarrow> v)"
    by (intro get_co2_intensity_object [of w r]) (auto simp: raise_for_status_def)
next
  assume "electricitymaps_get w = None"
  then show "fst (get_co2_intensity w zone) = Inr (JNumber 0)"
    by (simp add: get_co2_intensity_failed)
next
  fix r
  assume "electricitymaps_get w = Some r \<and>
      ((400 \<le> status_code r \<and> status_code r < 600) \<or> body r = None)"
  then show "fst (get_co2_intensity w zone) = Inr (JNumber 0)"
    by (intro get_co2_intensity_failed) (auto simp: raise_for_status_def)
qed

theorem intensity_fetch_witness:
  "fst (get_co2_intensity example_world ''DE'') = Inr (JNumber 400) \<and>
   fst (get_co2_intensity
          (example_world\<lparr>electricitymaps_get :=
             Some \<lparr>status_code = 200, body = Some (JObject [(''zone'', JString ''DE'')])\<rparr>\<rparr>)
          ''DE'') = Inr (JNumber 0) \<and>
   fst (get_co2_intensity (example_world\<lparr>electricitymaps_get := None\<rparr>) ''DE'') =
     Inr (JNumber 0) \<and>
   fst (get_co2_intensity
          (example_world\<lparr>electricitymaps_get :=
             Some \<lparr>status_code = 503, body = Some (JObject [(''carbonIntensity'', JNumber 5)])\<rparr>\<rparr>)
          ''DE'') = Inr (JNumber 0) \<and>
   fst (get_co2_intensity
          (example_world\<lparr>electricitymaps_get := Some \<lparr>status_code = 200, body = None\<rparr>\<rparr>)
          ''DE'') = Inr (JNumber 0)"
proof -
  have found: "fst (get_co2_intensity example_world ''DE'') = Inr (JNumber 400)"
    using intensity_fetch [of example_world "''DE''"]
    by (simp add: example_world_def dict_get_def)
  have absent: "fst (get_co2_intensity
          (example_world\<lparr>electricitymaps_get :=
             Some \<lparr>status_code = 200, body = Some (JObject [(''zone'', JString ''DE'')])\<rparr>\<rparr>)
          ''DE'') = Inr (JNumber 0)"
    using intensity_fetch [of "example_world\<lparr>electricitymaps_get :=
             Some \<lparr>status_code = 200, body = Some (JObject [(''zone'', JString ''DE'')])\<rparr>\<rparr>" "''DE''"]
    by (simp add: dict_get_def)
  have network: "fst (get_co2_intensity (example_world\<lparr>electricitymaps_get := None\<rparr>) ''DE'') =
     Inr (JNumber 0)"
    using intensity_fetch [of "example_world\<lparr>electricitymaps_get := None\<rparr>" "''DE''"]
    by simp
  have status: "fst (get_co2_intensity
          (example_world\<lparr>electricitymaps_get :=
             Some \<lparr>status_code = 503, body = Some (JObject [(''carbonIntensity'', JNumber 5)])\<rparr>\<rparr>)
          ''DE'') = Inr (JNumber 0)"
    using intensity_fetch [of "example_world\<lparr>electricitymaps_get :=
             Some \<lparr>status_code = 503, body = Some (JObject [(''carbonIntensity'', JNumber 5)])\<rparr>\<rparr>" "''DE''"]
    by simp
  have json: "fst (get_co2_intensity
          (example_world\<lparr>electricitymaps_get := Some \<lparr>status_code = 200, body = None\<rparr>\<rparr>)
          ''DE'') = Inr (JNumber 0)"
    using intensity_fetch [of "example_world\<lparr>electricitymaps_get :=
        Some \<lparr>status_code = 200, body = None\<rparr>\<rparr>" "''DE''"]
    by simp
  show ?thesis
    using found absent network status json by simp
qed

subsection \<open>The composition of the batch\<close>





lemma compose_example:
  "compose example_loads (JNumber 400) (get_epex_prices example_start example_end) example_end =
     Inr example_batch"
  by (simp add: compose_def make_point_def get_epex_prices_def example_loads_def
      manufacturing_factor_def example_batch_def)





subsection \<open>The run\<close>

lemma writes_append: "writes (xs @ ys) = writes xs @ writes ys"
  by (induction xs rule: writes.induct) simp_all

lemma writes_get_entsoe_load: "writes (snd (get_entsoe_load lib w s e)) = []"
  by (simp add: get_entsoe_load_def Let_def split: option.split sum.split)

lemma writes_get_co2_intensity: "writes (snd (get_co2_intensity w zone)) = []"
  by (simp add: get_co2_intensity_def Let_def split: option.split json.split)

lemma try_block_load_raises:
  assumes "fst (get_entsoe_load lib w s e) = Inl ex"
  shows "try_block lib w s e = (Inl ex, snd (get_entsoe_load lib w s e))"
  using assms by (cases "get_entsoe_load lib w s e") (simp add: try_block_def)

lemma try_block_intensity_raises:
  assumes "fst (get_entsoe_load lib w s e) = Inr load_data"
    and "fst (get_co2_intensity w ''DE'') = Inl ex"
  shows "try_block lib w s e =
           (Inl ex, snd (get_entsoe_load lib w s e) @ snd (get_co2_intensity w ''DE''))"
  using assms
  by (cases "get_entsoe_load lib w s e"; cases "get_co2_intensity w ''DE''")
     (simp add: try_block_def)

lemma try_block_compose_raises:
  assumes "fst (get_entsoe_load lib w s e) = Inr load_data"
    and "fst (get_co2_intensity w ''DE'') = Inr co2"
    and "compose load_data co2 (get_epex_prices s e) e = Inl ex"
  shows "try_block lib w s e =
           (Inl ex, snd (get_entsoe_load lib w s e) @ snd (get_co2_intensity w ''DE''))"
  using assms
  by (cases "get_entsoe_load lib w s e"; cases "get_co2_intensity w ''DE''")
     (simp add: try_block_def)

lemma try_block_composed:
  assumes "fst (get_entsoe_load lib w s e) = Inr load_data"
    and "fst (get_co2_intensity w ''DE'') = Inr co2"
    and "compose load_data co2 (get_epex_prices s e) e = Inr batch"
  shows "try_block lib w s e =
           (if batch \<noteq> []
            then (case write_points w batch of
                    Some ex \<Rightarrow>
                      (Inl ex,
                       snd (get_entsoe_load lib w s e) @ snd (get_co2_intensity w ''DE'') @
                       [WritePoints batch])
                  | None \<Rightarrow>
                      (Inr (),
                       snd (get_entsoe_load lib w s e) @ snd (get_co2_intensity w ''DE'') @
                       [WritePoints batch, Log INFO (Successfully_wrote (length batch))]))
            else (Inr (),
                  snd (get_entsoe_load lib w s e) @ snd (get_co2_intensity w ''DE'') @
                  [Log WARNING No_data_points_to_write]))"
  using assms
  by (cases "get_entsoe_load lib w s e"; cases "get_co2_intensity w ''DE''")
     (simp add: try_block_def split: option.split)

lemma collect_trace:
  assumes "date_range (utcnow w) days = Inr (s, e)"
  shows "snd (collect_and_store_data lib w days) =
           Log INFO (Requesting_data s e) # snd (try_block lib w s e) @
           (case fst (try_block lib w s e) of
              Inl ex \<Rightarrow> [Log ERROR (Data_collection_failed ex)]
            | Inr u \<Rightarrow> [])"
  using assms
  by (cases "try_block lib w s e") (simp add: collect_and_store_data_def split: sum.split)

lemma collect_returns:
  assumes "date_range (utcnow w) days = Inr (s, e)"
  shows "fst (collect_and_store_data lib w days) = Inr ()"
  using assms
  by (cases "try_block lib w s e") (simp add: collect_and_store_data_def split: sum.split)

lemma try_block_write_raises:
  assumes "fst (get_entsoe_load lib w s e) = Inr load_data"
    and "fst (get_co2_intensity w ''DE'') = Inr co2"
    and "compose load_data co2 (get_epex_prices s e) e = Inr batch"
    and "batch \<noteq> []"
    and "write_points w batch = Some ex"
  shows "fst (try_block lib w s e) = Inl ex"
  using assms(4,5) by (simp add: try_block_composed [OF assms(1,2,3)])

subsection \<open>The run on the example worlds\<close>

lemma date_range_example_world:
  assumes "utcnow w = invocation_instant"
  shows "date_range (utcnow w) 7 = Inr (example_start, example_end)"
  using assms by (simp add: date_range_at_invocation_instant)

lemma parse_example_document:
  "parse_load_document example_lib (xml_document example_document) = Inr example_loads"
proof -
  have first: "first_periods example_document = [example_period]"
    by (simp add: first_periods_def example_document_def)
  have "list_all (period_readable example_lib) (first_periods example_document)"
    by (simp add: first example_period_readable)
  from parse_first_periods [OF example_document_shaped this] show ?thesis
    by (simp add: first example_period_load_points example_loads_def)
qed

lemma fst_get_entsoe_load_example:
  assumes "entsoe_get w = entsoe_get example_world"
  shows "fst (get_entsoe_load example_lib w s e) = Inr example_loads"
proof -
  have "entsoe_get w =
      Some \<lparr>status_code = 200, body = Some (xml_document example_document)\<rparr>"
    using assms by (simp add: example_world_def)
  then show ?thesis
    by (simp add: fst_get_entsoe_load [where x = "xml_document example_document"]
        raise_for_status_def parse_example_document)
qed

lemma fst_get_co2_intensity_example:
  assumes "electricitymaps_get w = electricitymaps_get example_world"
  shows "fst (get_co2_intensity w ''DE'') = Inr (JNumber 400)"
  using assms
  by (simp add: get_co2_intensity_def example_world_def raise_for_status_def dict_get_def)

lemma fst_get_entsoe_load_empty_document:
  "fst (get_entsoe_load lib empty_load_world s e) = Inr []"
  by (simp add: fst_get_entsoe_load [where x = "xml_document (LoadDocument [] [])"]
      empty_load_world_def raise_for_status_def parse_load_document_def
      findall_descendants_def xml_document_def)

lemma collect_example_world:
  "collect_and_store_data example_lib example_world 7 =
     (Inr (),
      [Log INFO (Requesting_data example_start example_end),
       Log INFO (Making_ENTSOE_request example_start example_end),
       HttpGet ''https://web-api.tp.entsoe.eu/api'',
       Log INFO (Response_status 200),
       Log INFO Request_URL,
       Log INFO (Retrieved_load_points 2),
       HttpGet ''https://api.electricitymap.org/v3/carbon-intensity/latest'',
       WritePoints example_batch,
       Log INFO (Successfully_wrote 2)])"
proof -
  have range: "date_range (utcnow example_world) 7 = Inr (example_start, example_end)"
    by (rule date_range_example_world) (simp add: example_world_def)
  have load: "get_entsoe_load example_lib example_world example_start example_end =
      (Inr example_loads,
       [Log INFO (Making_ENTSOE_request example_start example_end),
        HttpGet ''https://web-api.tp.entsoe.eu/api'',
        Log INFO (Response_status 200),
        Log INFO Request_URL,
        Log INFO (Retrieved_load_points 2)])"
    by (simp add: get_entsoe_load_def example_world_def raise_for_status_def
        parse_example_document)
       (simp add: example_loads_def)
  have co2: "get_co2_intensity example_world ''DE'' =
      (Inr (JNumber 400), [HttpGet ''https://api.electricitymap.org/v3/carbon-intensity/latest''])"
    by (simp add: get_co2_intensity_def example_world_def raise_for_status_def dict_get_def)
  have accepted: "write_points example_world example_batch = None"
    by (simp add: example_world_def)
  have nonempty: "example_batch \<noteq> []" and len: "length example_batch = 2"
    by (simp_all add: example_batch_def)
  show ?thesis
    by (simp add: collect_and_store_data_def range try_block_def load co2 compose_example
        accepted nonempty len)
qed

lemma collect_array_world:
  "collect_and_store_data example_lib array_world 7 =
     (Inr (),
      [Log INFO (Requesting_data example_start example_end),
       Log INFO (Making_ENTSOE_request example_start example_end),
       HttpGet ''https://web-api.tp.entsoe.eu/api'',
       Log INFO (Response_status 200),
       Log INFO Request_URL,
       Log INFO (Retrieved_load_points 0),
       HttpGet ''https://api.electricitymap.org/v3/carbon-intensity/latest'',
       Log ERROR (Data_collection_failed AttributeError)])"
proof -
  have range: "date_range (utcnow array_world) 7 = Inr (example_start, example_end)"
    by (rule date_range_example_world)
       (simp add: array_world_def empty_load_world_def example_world_def)
  have load: "get_entsoe_load example_lib array_world example_start example_end =
      (Inr [],
       [Log INFO (Making_ENTSOE_request example_start example_end),
        HttpGet ''https://web-api.tp.entsoe.eu/api'',
        Log INFO (Response_status 200),
        Log INFO Request_URL,
        Log INFO (Retrieved_load_points 0)])"
    by (simp add: get_entsoe_load_def array_world_def empty_load_world_def
        raise_for_status_def parse_load_document_def findall_descendants_def xml_document_def)
  have co2: "get_co2_intensity array_world ''DE'' =
      (Inl AttributeError, [HttpGet ''https://api.electricitymap.org/v3/carbon-intensity/latest''])"
    by (simp add: get_co2_intensity_def array_world_def raise_for_status_def)
  show ?thesis
    by (simp add: collect_and_store_data_def range try_block_def load co2)
qed

text \<open>
  C8, as stated: whenever the load fetch returns no points, the run logs the warning.
  When the intensity source answers with JSON that is not an object, the intensity fetch
  raises \<open>AttributeError\<close>, nothing is composed, and the run logs an error and no
  warning.
\<close>

theorem no_warning_counterexample:
  "fst (get_entsoe_load example_lib array_world example_start example_end) = Inr [] \<and>
   Log WARNING No_data_points_to_write \<notin>
     set (snd (collect_and_store_data example_lib array_world 7)) \<and>
   last (snd (collect_and_store_data example_lib array_world 7)) =
     Log ERROR (Data_collection_failed AttributeError)"
  by (simp add: collect_array_world)
     (simp add: fst_get_entsoe_load [where x = "xml_document (LoadDocument [] [])"]
        array_world_def empty_load_world_def raise_for_status_def parse_load_document_def
        findall_descendants_def xml_document_def)

text \<open>
  C8, amended: when the load fetch returned \<open>load_data\<close> and the run reaches the
  composition (the intensity fetch returned a value), an empty batch (in particular the
  batch of an empty \<open>load_data\<close>) is not written: the run logs the warning and never
  calls \<open>write_points\<close>; a batch that is not empty is written by exactly one call,
  whole. With an empty \<open>load_data\<close> nothing is written, whatever the intensity fetch does.
\<close>

theorem write_only_nonempty_batch:
  assumes "date_range (utcnow w) days_to_collect = Inr (start_utc, end_utc)"
    and "fst (get_entsoe_load lib w start_utc end_utc) = Inr load_data"
  shows "(load_data = [] \<longrightarrow> writes (snd (collect_and_store_data lib w days_to_collect)) = []) \<and>
         (\<forall>co2 batch.
            fst (get_co2_intensity w ''DE'') = Inr co2 \<and>
            compose load_data co2 (get_epex_prices start_utc end_utc) end_utc = Inr batch \<longrightarrow>
            (load_data = [] \<longrightarrow> batch = []) \<and>
            (batch = [] \<longrightarrow>
               writes (snd (collect_and_store_data lib w days_to_collect)) = [] \<and>
               Log WARNING No_data_points_to_write \<in>
                 set (snd (collect_and_store_data lib w days_to_collect))) \<and>
            (batch \<noteq> [] \<longrightarrow>
               writes (snd (collect_and_store_data lib w days_to_collect)) = [batch]))"
proof -
  let ?trace = "snd (collect_and_store_data lib w days_to_collect)"
  note trace = collect_trace [OF assms(1), of lib]
  have composed:
    "(load_data = [] \<longrightarrow> batch = []) \<and>
     (batch = [] \<longrightarrow> writes ?trace = [] \<and> Log WARNING No_data_points_to_write \<in> set ?trace) \<and>
     (batch \<noteq> [] \<longrightarrow> writes ?trace = [batch])"
    if co2: "fst (get_co2_intensity w ''DE'') = Inr co2"
      and batch: "compose load_data co2 (get_epex_prices start_utc end_utc) end_utc = Inr batch"
    for co2 batch
  proof -
    note block = try_block_composed [OF assms(2) co2 batch]
    have "batch = []" if "load_data = []"
      using batch that by (simp add: compose_def)
    moreover have "writes ?trace = [] \<and> Log WARNING No_data_points_to_write \<in> set ?trace"
      if "batch = []"
      using that by (simp add: trace block writes_append writes_get_entsoe_load
          writes_get_co2_intensity)
    moreover have "writes ?trace = [batch]" if "batch \<noteq> []"
      using that by (simp add: trace block writes_append writes_get_entsoe_load
          writes_get_co2_intensity split: option.split)
    ultimately show ?thesis by blast
  qed
  have "writes ?trace = []" if empty: "load_data = []"
  proof (cases "fst (get_co2_intensity w ''DE'')")
    case (Inl ex)
    show ?thesis
      by (simp add: trace try_block_intensity_raises [OF assms(2) Inl] writes_append
          writes_get_entsoe_load writes_get_co2_intensity)
  next
    case (Inr co2)
    have "compose load_data co2 (get_epex_prices start_utc end_utc) end_utc = Inr []"
      by (simp add: empty compose_def)
    from composed [OF Inr this] show ?thesis by simp
  qed
  with composed show ?thesis by blast
qed

theorem write_only_nonempty_batch_witness:
  "fst (get_entsoe_load example_lib example_world example_start example_end) = Inr example_loads \<and>
   writes (snd (collect_and_store_data example_lib example_world 7)) = [example_batch] \<and>
   example_batch \<noteq> [] \<and>
   fst (get_entsoe_load example_lib empty_load_world example_start example_end) = Inr [] \<and>
   writes (snd (collect_and_store_data example_lib empty_load_world 7)) = [] \<and>
   Log WARNING No_data_points_to_write \<in>
     set (snd (collect_and_store_data example_lib empty_load_world 7))"
proof -
  have range1: "date_range (utcnow example_world) 7 = Inr (example_start, example_end)"
    by (rule date_range_example_world) (simp add: example_world_def)
  have range2: "date_range (utcnow empty_load_world) 7 = Inr (example_start, example_end)"
    by (rule date_range_example_world) (simp add: empty_load_world_def example_world_def)
  have loads: "fst (get_entsoe_load example_lib example_world example_start example_end) =
      Inr example_loads"
    by (simp add: fst_get_entsoe_load_example)
  have co2: "fst (get_co2_intensity example_world ''DE'') = Inr (JNumber 400)"
    by (simp add: fst_get_co2_intensity_example)
  have co2': "fst (get_co2_intensity empty_load_world ''DE'') = Inr (JNumber 400)"
    by (simp add: fst_get_co2_intensity_example empty_load_world_def)
  have nonempty: "example_batch \<noteq> []"
    by (simp add: example_batch_def)
  have written: "writes (snd (collect_and_store_data example_lib example_world 7)) = [example_batch]"
    using write_only_nonempty_batch [OF range1 loads] co2 compose_example nonempty
    by blast
  have none: "fst (get_entsoe_load example_lib empty_load_world example_start example_end) = Inr []"
    by (rule fst_get_entsoe_load_empty_document)
  have empty: "compose [] (JNumber 400) (get_epex_prices example_start example_end) example_end =
      Inr []"
    by (simp add: compose_def)
  have skipped: "writes (snd (collect_and_store_data example_lib empty_load_world 7)) = [] \<and>
      Log WARNING No_data_points_to_write \<in>
        set (snd (collect_and_store_data example_lib empty_load_world 7))"
    using write_only_nonempty_batch [OF range2 none] co2' empty
    by blast
  show ?thesis
    using loads written nonempty none skipped by simp
qed

text \<open>
  C9: whenever the date range could be computed, the run returns normally. An exception
  raised by the load fetch (its request or its parsing), by the intensity fetch, by the
  composition or by the write is the exception of the \<open>try\<close> block, and the run ends by
  logging it as an error.
\<close>

theorem run_catches_exceptions:
  assumes "date_range (utcnow w) days_to_collect = Inr (start_utc, end_utc)"
  shows "fst (collect_and_store_data lib w days_to_collect) = Inr () \<and>
         (\<forall>ex.
            (fst (get_entsoe_load lib w start_utc end_utc) = Inl ex \<or>
             (\<exists>load_data.
                fst (get_entsoe_load lib w start_utc end_utc) = Inr load_data \<and>
                (fst (get_co2_intensity w ''DE'') = Inl ex \<or>
                 (\<exists>co2.
                    fst (get_co2_intensity w ''DE'') = Inr co2 \<and>
                    (compose load_data co2 (get_epex_prices start_utc end_utc) end_utc = Inl ex \<or>
                     (\<exists>batch.
                        compose load_data co2 (get_epex_prices start_utc end_utc) end_utc =
                          Inr batch \<and>
                        batch \<noteq> [] \<and> write_points w batch = Some ex)))))) \<longrightarrow>
            fst (try_block lib w start_utc end_utc) = Inl ex) \<and>
         (\<forall>ex. fst (try_block lib w start_utc end_utc) = Inl ex \<longrightarrow>
            snd (collect_and_store_data lib w days_to_collect) =
              Log INFO (Requesting_data start_utc end_utc) #
              snd (try_block lib w start_utc end_utc) @
              [Log ERROR (Data_collection_failed ex)])"
proof (intro conjI allI impI)
  show "fst (collect_and_store_data lib w days_to_collect) = Inr ()"
    by (rule collect_returns [OF assms])
next
  fix ex
  assume "fst (get_entsoe_load lib w start_utc end_utc) = Inl ex \<or>
     (\<exists>load_data.
        fst (get_entsoe_load lib w start_utc end_utc) = Inr load_data \<and>
        (fst (get_co2_intensity w ''DE'') = Inl ex \<or>
         (\<exists>co2.
            fst (get_co2_intensity w ''DE'') = Inr co2 \<and>
            (compose load_data co2 (get_epex_prices start_utc end_utc) end_utc = Inl ex \<or>
             (\<exists>batch.
                compose load_data co2 (get_epex_prices start_utc end_utc) end_utc =
                  Inr batch \<and>
                batch \<noteq> [] \<and> write_points w batch = Some ex)))))"
  then show "fst (try_block lib w start_utc end_utc) = Inl ex"
    by (auto simp: try_block_load_raises try_block_intensity_raises try_block_compose_raises
        try_block_write_raises)
next
  fix ex
  assume "fst (try_block lib w start_utc end_utc) = Inl ex"
  then show "snd (collect_and_store_data lib w days_to_collect) =
      Log INFO (Requesting_data start_utc end_utc) #
      snd (try_block lib w start_utc end_utc) @
      [Log ERROR (Data_collection_failed ex)]"
    by (simp add: collect_trace [OF assms])
qed

theorem run_catches_exceptions_witness:
  "write_points failing_write_world example_batch = Some InfluxDBError \<and>
   fst (collect_and_store_data example_lib failing_write_world 7) = Inr () \<and>
   last (snd (collect_and_store_data example_lib failing_write_world 7)) =
     Log ERROR (Data_collection_failed InfluxDBError) \<and>
   fst (get_entsoe_load example_lib unreadable_world example_start example_end) =
     Inl ValueError \<and>
   fst (collect_and_store_data example_lib unreadable_world 7) = Inr () \<and>
   last (snd (collect_and_store_data example_lib unreadable_world 7)) =
     Log ERROR (Data_collection_failed ValueError)"
proof -
  have range1: "date_range (utcnow failing_write_world) 7 = Inr (example_start, example_end)"
    by (rule date_range_example_world) (simp add: failing_write_world_def example_world_def)
  have range2: "date_range (utcnow unreadable_world) 7 = Inr (example_start, example_end)"
    by (rule date_range_example_world) (simp add: unreadable_world_def example_world_def)
  note run1 = run_catches_exceptions [OF range1, of example_lib]
  note run2 = run_catches_exceptions [OF range2, of example_lib]
  have loads: "fst (get_entsoe_load example_lib failing_write_world example_start example_end) =
      Inr example_loads"
    by (simp add: fst_get_entsoe_load_example failing_write_world_def)
  have co2: "fst (get_co2_intensity failing_write_world ''DE'') = Inr (JNumber 400)"
    by (simp add: fst_get_co2_intensity_example failing_write_world_def)
  have nonempty: "example_batch \<noteq> []"
    by (simp add: example_batch_def)
  have refused: "write_points failing_write_world example_batch = Some InfluxDBError"
    by (simp add: failing_write_world_def)
  have "fst (try_block example_lib failing_write_world example_start example_end) =
      Inl InfluxDBError"
    using run1 loads co2 compose_example nonempty refused by blast
  with run1 have last1: "last (snd (collect_and_store_data example_lib failing_write_world 7)) =
      Log ERROR (Data_collection_failed InfluxDBError)"
    by simp
  have raised: "fst (get_entsoe_load example_lib unreadable_world example_start example_end) =
      Inl ValueError"
    by (simp add: fst_get_entsoe_load [where x = "xml_document unreadable_document"]
        unreadable_world_def raise_for_status_def
        parse_unreadable [OF unreadable_document_shaped unreadable_document_unreadable])
  with run2 have "fst (try_block example_lib unreadable_world example_start example_end) =
      Inl ValueError"
    by blast
  with run2 have last2: "last (snd (collect_and_store_data example_lib unreadable_world 7)) =
      Log ERROR (Data_collection_failed ValueError)"
    by simp
  show ?thesis
    using run1 run2 refused last1 raised last2 by simp
qed

text \<open>
  C1: \<open>main\<close> calls the method of the class, with \<open>days_to_collect=7\<close> and
  \<open>interval_minutes=15\<close>. The claim is that this call runs the collection; it does not:
  in a world where the function at module level fetches, composes and writes the batch
  of two points, the method does nothing, and \<open>main\<close> only logs the connection.
\<close>

theorem main_calls_empty_method:
  "EnergyDataCollector_collect_and_store_data example_world 7 15 = (Inr (), []) \<and>
   main example_world = (Inr (), [Log INFO Connected_to_InfluxDB]) \<and>
   writes (snd (main example_world)) = [] \<and>
   writes (snd (collect_and_store_data example_lib example_world 7)) = [example_batch] \<and>
   example_batch \<noteq> []"
  by (simp add: collect_example_world)
     (simp add: main_def EnergyDataCollector_init_def
        EnergyDataCollector_collect_and_store_data_def example_world_def example_batch_def)

end
